theory Spec2Isabelle
  imports Main "HOL-Library.Word"
begin

section \<open>The DHD External Control Protocol client (ecp.py)\<close>

text \<open>
  A shallow embedding of \<^verbatim>\<open>custom_components/dhd_audio/ecp.py\<close>. Python integers are
  \<open>int\<close>, a \<^verbatim>\<open>bytes\<close> object is a list of 8-bit words, an exception is a value of
  \<open>error\<close> returned on the left of a sum.
\<close>

subsection \<open>Constants (const.py) and exceptions\<close>

type_synonym byte = "8 word"
type_synonym bytes = "byte list"

definition ECP_BLOCK_SIZE :: nat where
  "ECP_BLOCK_SIZE = 16"

definition ECP_CMD_SET_LOGIC :: int where
  "ECP_CMD_SET_LOGIC = 0x110E0000"

datatype protocol_msg =
    ExpectedBlockSize          \<comment> \<open>"Expected 16-byte block, got ..."\<close>
  | TimeoutWaiting             \<comment> \<open>"Timeout waiting for response to ..."\<close>
  | UnexpectedResponseLength   \<comment> \<open>"Unexpected response length ... for logic query"\<close>

datatype connection_msg =
    FailedToConnect            \<comment> \<open>"Failed to connect to host:port"\<close>
  | Disconnected               \<comment> \<open>"Disconnected"\<close>

datatype error =
    ValueError                 \<comment> \<open>\<^verbatim>\<open>_build_block\<close>: data exceeds 8 bytes\<close>
  | OverflowError              \<comment> \<open>\<^verbatim>\<open>int.to_bytes\<close>: negative, or too big for the width\<close>
  | StructError                \<comment> \<open>\<^verbatim>\<open>struct.pack\<close>: a B argument outside 0..255\<close>
  | DHDProtocolError protocol_msg
  | DHDConnectionError connection_msg
  | AssertionError             \<comment> \<open>a failed \<^verbatim>\<open>assert\<close>\<close>
  | CancelledError             \<comment> \<open>\<^verbatim>\<open>asyncio.CancelledError\<close>\<close>
  | OtherException             \<comment> \<open>any other exception raised by the environment\<close>

subsection \<open>Python's bytes primitives\<close>

text \<open>\<^verbatim>\<open>xs[i:j]\<close> for indices \<open>0 \<le> i\<close>, \<open>0 \<le> j\<close>: clipped at the end, never raising.\<close>

definition py_slice :: "'a list \<Rightarrow> nat \<Rightarrow> nat \<Rightarrow> 'a list" where
  "py_slice xs i j = take (j - i) (drop i xs)"

text \<open>\<^verbatim>\<open>data.ljust(width, fill)\<close>.\<close>

definition ljust :: "bytes \<Rightarrow> nat \<Rightarrow> byte \<Rightarrow> bytes" where
  "ljust data width fill = data @ replicate (width - length data) fill"

text \<open>The \<open>n\<close> big-endian base-256 digits of \<open>x\<close>.\<close>

fun be_digits :: "nat \<Rightarrow> int \<Rightarrow> bytes" where
  "be_digits 0 x = []"
| "be_digits (Suc n) x = be_digits n (x div 256) @ [word_of_int (x mod 256)]"

text \<open>\<^verbatim>\<open>x.to_bytes(n, "big")\<close>: OverflowError unless \<open>0 \<le> x < 256 ^ n\<close>.\<close>

definition to_bytes :: "int \<Rightarrow> nat \<Rightarrow> error + bytes" where
  "to_bytes x n = (if x < 0 \<or> 256 ^ n \<le> x then Inl OverflowError else Inr (be_digits n x))"

text \<open>\<^verbatim>\<open>int.from_bytes(bs, "big")\<close>.\<close>

definition from_bytes :: "bytes \<Rightarrow> int" where
  "from_bytes bs = foldl (\<lambda>acc b. acc * 256 + uint b) 0 bs"

text \<open>
  \<^verbatim>\<open>struct.pack(">BB4s8sBB", b0, b1, s4, s8, b14, b15)\<close>: a \<open>B\<close> field takes an integer in
  0..255, an \<open>Ns\<close> field takes bytes, cut or zero-padded to \<open>N\<close>.
\<close>

definition pack_B :: "int \<Rightarrow> error + bytes" where
  "pack_B v = (if 0 \<le> v \<and> v \<le> 255 then Inr [word_of_int v] else Inl StructError)"

definition pack_s :: "nat \<Rightarrow> bytes \<Rightarrow> bytes" where
  "pack_s n bs = take n bs @ replicate (n - length bs) 0"

definition struct_pack :: "int \<Rightarrow> int \<Rightarrow> bytes \<Rightarrow> bytes \<Rightarrow> int \<Rightarrow> int \<Rightarrow> error + bytes" where
  "struct_pack b0 b1 s4 s8 b14 b15 =
     (case pack_B b0 of Inl e \<Rightarrow> Inl e | Inr x0 \<Rightarrow>
     (case pack_B b1 of Inl e \<Rightarrow> Inl e | Inr x1 \<Rightarrow>
     (case pack_B b14 of Inl e \<Rightarrow> Inl e | Inr x14 \<Rightarrow>
     (case pack_B b15 of Inl e \<Rightarrow> Inl e | Inr x15 \<Rightarrow>
        Inr (x0 @ x1 @ pack_s 4 s4 @ pack_s 8 s8 @ x14 @ x15)))))"

subsection \<open>The frame codec: \<^verbatim>\<open>_build_block\<close> and \<^verbatim>\<open>_parse_block\<close>\<close>

definition build_block :: "int \<Rightarrow> bytes \<Rightarrow> error + bytes" where
  "build_block command_id data =
     (if length data > 8 then Inl ValueError
      else
        let padded_data = ljust data 8 0 in
        case to_bytes command_id 4 of
          Inl e \<Rightarrow> Inl e
        | Inr cmd \<Rightarrow> struct_pack (int (length data)) 0 cmd padded_data 0 0)"

text \<open>Returns (length, command_id, data).\<close>

definition parse_block :: "bytes \<Rightarrow> error + (int \<times> int \<times> bytes)" where
  "parse_block block =
     (if length block \<noteq> ECP_BLOCK_SIZE then Inl (DHDProtocolError ExpectedBlockSize)
      else
        let len = uint (block ! 0);
            command_id = from_bytes (py_slice block 2 6);
            data = py_slice block 6 (6 + nat len)
        in Inr (len, command_id, data))"

subsection \<open>Futures, tasks and the client object\<close>

text \<open>
  An \<^verbatim>\<open>asyncio.Future\<close> with the attribute \<^verbatim>\<open>_dhd_match\<close> that \<^verbatim>\<open>send_command\<close> attaches:
  (expected command, expected logic id or None).
\<close>

datatype fut_state =
    Waiting
  | Result "int \<times> bytes"
  | Exception error
  | Cancelled

record future =
  dhd_match :: "int \<times> int option"
  outcome :: fut_state

definition fut_done :: "future \<Rightarrow> bool" where
  "fut_done fut = (outcome fut \<noteq> Waiting)"

definition set_result :: "future \<Rightarrow> int \<times> bytes \<Rightarrow> future" where
  "set_result fut r = fut\<lparr>outcome := Result r\<rparr>"

definition set_exception :: "future \<Rightarrow> error \<Rightarrow> future" where
  "set_exception fut e = fut\<lparr>outcome := Exception e\<rparr>"

datatype stream_reader = StreamReader

record stream_writer =
  is_closing :: bool
  written :: "bytes list"

datatype task = Task (task_done: bool)

text \<open>
  The registered callback: called with (logic_id, state), it returns or raises an
  \<^verbatim>\<open>Exception\<close>.
\<close>

datatype call_outcome = Returned | Raised

type_synonym callback = "int \<Rightarrow> bool \<Rightarrow> call_outcome"

text \<open>What the logger receives at warning level and above.\<close>

datatype log_entry =
    LogConnectionLost      \<comment> \<open>warning "Connection lost to DHD mixer"\<close>
  | LogCallbackError       \<comment> \<open>exception "Error in logic callback"\<close>
  | LogCrashed             \<comment> \<open>exception "Listener loop crashed"\<close>

text \<open>
  The fields of \<^verbatim>\<open>DHDClient\<close>. Futures are objects shared between the dict
  \<^verbatim>\<open>_pending\<close> and the coroutine that awaits them: \<open>futures\<close> is the store of future
  objects, addressed by the pid each was created for, and \<open>pending\<close> is the list of
  keys of \<^verbatim>\<open>_pending\<close> in insertion order. \<open>calls\<close> records the invocations of the
  callback, \<open>logged\<close> the log.
\<close>

record client =
  reader :: "stream_reader option"
  writer :: "stream_writer option"
  listener_task :: "task option"
  pending :: "nat list"
  pending_id :: nat
  logic_callback :: "callback option"
  futures :: "nat \<Rightarrow> future"
  calls :: "(int \<times> bool) list"
  logged :: "log_entry list"

text \<open>\<^verbatim>\<open>__init__\<close>; no future object exists yet.\<close>

definition init_client :: client where
  "init_client =
     \<lparr>reader = None, writer = None, listener_task = None, pending = [], pending_id = 0,
      logic_callback = None,
      futures = (\<lambda>_. \<lparr>dhd_match = (0, None), outcome = Cancelled\<rparr>),
      calls = [], logged = []\<rparr>"

definition connected :: "client \<Rightarrow> bool" where
  "connected c = (case writer c of None \<Rightarrow> False | Some w \<Rightarrow> \<not> is_closing w)"

definition set_logic_callback :: "callback option \<Rightarrow> client \<Rightarrow> client" where
  "set_logic_callback cb c = c\<lparr>logic_callback := cb\<rparr>"

subsection \<open>Connection management\<close>

definition start_listener :: "client \<Rightarrow> client" where
  "start_listener c =
     (case listener_task c of
        Some t \<Rightarrow> if \<not> task_done t then c else c\<lparr>listener_task := Some (Task False)\<rparr>
      | None \<Rightarrow> c\<lparr>listener_task := Some (Task False)\<rparr>)"

text \<open>What \<^verbatim>\<open>asyncio.wait_for(asyncio.open_connection(...), CONNECT_TIMEOUT)\<close> does.\<close>

datatype open_result = Opened | OpenOSError | OpenTimeout

definition connect :: "open_result \<Rightarrow> client \<Rightarrow> (error + unit) \<times> client" where
  "connect res c =
     (if connected c then (Inr (), c)
      else case res of
        Opened \<Rightarrow>
          (Inr (), start_listener
             (c\<lparr>reader := Some StreamReader,
                writer := Some \<lparr>is_closing = False, written = []\<rparr>\<rparr>))
      | _ \<Rightarrow> (Inl (DHDConnectionError FailedToConnect), c\<lparr>reader := None, writer := None\<rparr>))"

fun fail_pending :: "nat list \<Rightarrow> (nat \<Rightarrow> future) \<Rightarrow> (nat \<Rightarrow> future)" where
  "fail_pending [] futs = futs"
| "fail_pending (pid # rest) futs =
     (if \<not> fut_done (futs pid)
      then fail_pending rest
             (futs(pid := set_exception (futs pid) (DHDConnectionError Disconnected)))
      else fail_pending rest futs)"

definition stop_listener :: "client \<Rightarrow> client" where
  "stop_listener c =
     c\<lparr>listener_task := None,
       futures := fail_pending (pending c) (futures c),
       pending := []\<rparr>"

definition disconnect :: "client \<Rightarrow> client" where
  "disconnect c =
     (let c1 = stop_listener c in
      if writer c1 \<noteq> None then c1\<lparr>writer := None, reader := None\<rparr> else c1)"

definition ensure_connected :: "open_result \<Rightarrow> client \<Rightarrow> (error + unit) \<times> client" where
  "ensure_connected res c = (if \<not> connected c then connect res c else (Inr (), c))"

subsection \<open>The background listener\<close>

text \<open>
  The scan of \<^verbatim>\<open>list(self._pending.items())\<close>: the first future that is not done and
  matches the block gets the result; the flag is \<^verbatim>\<open>delivered\<close>.
\<close>

fun deliver :: "int \<Rightarrow> bytes \<Rightarrow> nat list \<Rightarrow> (nat \<Rightarrow> future) \<Rightarrow> (nat \<Rightarrow> future) \<times> bool" where
  "deliver cmd data [] futs = (futs, False)"
| "deliver cmd data (pid # rest) futs =
     (let fut = futs pid in
      if fut_done fut then deliver cmd data rest futs
      else
        let expected_cmd = fst (dhd_match fut); expected_logic = snd (dhd_match fut) in
        if cmd \<noteq> expected_cmd then deliver cmd data rest futs
        else if expected_logic \<noteq> None \<and> length data \<ge> 2 \<and>
                from_bytes (py_slice data 0 2) \<noteq> the expected_logic
        then deliver cmd data rest futs
        else (futs(pid := set_result fut (cmd, data)), True))"

text \<open>
  The body of the loop after a block is parsed: deliver to a pending command, otherwise
  treat a logic block of three bytes or more as a push.
\<close>

definition dispatch :: "int \<Rightarrow> bytes \<Rightarrow> client \<Rightarrow> client" where
  "dispatch cmd data c =
     (let (futs, delivered) = deliver cmd data (pending c) (futures c);
          c1 = c\<lparr>futures := futs\<rparr>
      in
        if \<not> delivered \<and> cmd = ECP_CMD_SET_LOGIC \<and> length data \<ge> 3 then
          let logic_id = from_bytes (py_slice data 0 2);
              state = (data ! 2 \<noteq> 0)
          in case logic_callback c1 of
               None \<Rightarrow> c1
             | Some cb \<Rightarrow>
                 (case cb logic_id state of
                    Returned \<Rightarrow> c1\<lparr>calls := calls c1 @ [(logic_id, state)]\<rparr>
                  | Raised \<Rightarrow> c1\<lparr>calls := calls c1 @ [(logic_id, state)],
                                 logged := logged c1 @ [LogCallbackError]\<rparr>)
        else c1)"

text \<open>What one \<^verbatim>\<open>await self._reader.readexactly(ECP_BLOCK_SIZE)\<close> does.\<close>

datatype read_event =
    Block bytes          \<comment> \<open>returns these bytes\<close>
  | IncompleteRead       \<comment> \<open>raises \<^verbatim>\<open>asyncio.IncompleteReadError\<close>: end of stream\<close>
  | ReadCancelled        \<comment> \<open>the task is cancelled while it waits: \<^verbatim>\<open>CancelledError\<close>\<close>
  | ReadError            \<comment> \<open>raises another \<^verbatim>\<open>Exception\<close>, such as \<^verbatim>\<open>ConnectionResetError\<close>\<close>

text \<open>How the coroutine stands when the events are used up.\<close>

datatype loop_exit =
    ConnectionLost       \<comment> \<open>left the loop by \<^verbatim>\<open>break\<close>\<close>
  | TaskCancelled        \<comment> \<open>\<^verbatim>\<open>except asyncio.CancelledError: return\<close>\<close>
  | Crashed              \<comment> \<open>\<^verbatim>\<open>except Exception\<close>: "Listener loop crashed"\<close>
  | AssertionFailed      \<comment> \<open>\<^verbatim>\<open>assert self._reader is not None\<close> failed\<close>
  | Suspended            \<comment> \<open>still waiting in \<^verbatim>\<open>readexactly\<close>\<close>

text \<open>A coroutine that has returned or raised leaves its task done.\<close>

definition task_finished :: "client \<Rightarrow> client" where
  "task_finished c = c\<lparr>listener_task := map_option (\<lambda>_. Task True) (listener_task c)\<rparr>"

fun listener_while :: "client \<Rightarrow> read_event list \<Rightarrow> loop_exit \<times> client" where
  "listener_while c [] = (Suspended, c)"
| "listener_while c (IncompleteRead # evs) =
     (ConnectionLost, task_finished (c\<lparr>logged := logged c @ [LogConnectionLost]\<rparr>))"
| "listener_while c (ReadCancelled # evs) = (TaskCancelled, task_finished c)"
| "listener_while c (ReadError # evs) =
     (Crashed, task_finished (c\<lparr>logged := logged c @ [LogCrashed]\<rparr>))"
| "listener_while c (Block raw # evs) =
     (case parse_block raw of
        Inl e \<Rightarrow> (Crashed, task_finished (c\<lparr>logged := logged c @ [LogCrashed]\<rparr>))
      | Inr (len, cmd, data) \<Rightarrow> listener_while (dispatch cmd data c) evs)"

definition listener_loop :: "client \<Rightarrow> read_event list \<Rightarrow> loop_exit \<times> client" where
  "listener_loop c evs =
     (if reader c = None then (AssertionFailed, task_finished c) else listener_while c evs)"

subsection \<open>Send and receive\<close>

text \<open>
  \<^verbatim>\<open>send_command\<close> up to \<^verbatim>\<open>await self._writer.drain()\<close>: connect if needed, register
  the future under a fresh pid, build the block and write it. Returns the pid.
\<close>

definition send_command_begin ::
  "open_result \<Rightarrow> int \<Rightarrow> bytes \<Rightarrow> int option \<Rightarrow> client \<Rightarrow> (error + nat) \<times> client" where
  "send_command_begin res command_id data logic_id c =
     (case ensure_connected res c of
        (Inl e, c1) \<Rightarrow> (Inl e, c1)
      | (Inr _, c1) \<Rightarrow>
          (case writer c1 of
             None \<Rightarrow> (Inl AssertionError, c1)
           | Some w \<Rightarrow>
               let pid = pending_id c1 + 1;
                   fut = \<lparr>dhd_match = (command_id, logic_id), outcome = Waiting\<rparr>;
                   c2 = c1\<lparr>pending_id := pid,
                           futures := (futures c1)(pid := fut),
                           pending := pending c1 @ [pid]\<rparr>
               in case build_block command_id data of
                    Inl e \<Rightarrow> (Inl e, c2)
                  | Inr block \<Rightarrow>
                      (Inr pid, c2\<lparr>writer := Some (w\<lparr>written := written w @ [block]\<rparr>)\<rparr>)))"

text \<open>
  The \<^verbatim>\<open>try\<close> statement of \<^verbatim>\<open>send_command\<close>, on the client as it is when
  \<^verbatim>\<open>asyncio.wait_for(fut, READ_TIMEOUT)\<close> ends: with the future's result or exception if
  it is done, and otherwise by the timeout, which cancels the future. The
  \<^verbatim>\<open>finally\<close> clause pops the pid.
\<close>

definition send_command_await :: "nat \<Rightarrow> client \<Rightarrow> (error + int \<times> bytes) \<times> client" where
  "send_command_await pid c =
     (let fut = futures c pid;
          popped = removeAll pid (pending c)
      in case outcome fut of
           Result r \<Rightarrow> (Inr r, c\<lparr>pending := popped\<rparr>)
         | Exception e \<Rightarrow> (Inl e, c\<lparr>pending := popped\<rparr>)
         | Cancelled \<Rightarrow> (Inl CancelledError, c\<lparr>pending := popped\<rparr>)
         | Waiting \<Rightarrow>
             (Inl (DHDProtocolError TimeoutWaiting),
              c\<lparr>futures := (futures c)(pid := fut\<lparr>outcome := Cancelled\<rparr>),
                pending := popped\<rparr>))"

text \<open>
  \<^verbatim>\<open>send_command\<close>; \<open>meanwhile\<close> is what the other tasks (the listener, a
  disconnect) do to the client while this coroutine is suspended in \<^verbatim>\<open>wait_for\<close>.
\<close>

definition send_command ::
  "open_result \<Rightarrow> (client \<Rightarrow> client) \<Rightarrow> int \<Rightarrow> bytes \<Rightarrow> int option \<Rightarrow> client
     \<Rightarrow> (error + int \<times> bytes) \<times> client" where
  "send_command res meanwhile command_id data logic_id c =
     (case send_command_begin res command_id data logic_id c of
        (Inl e, c1) \<Rightarrow> (Inl e, c1)
      | (Inr pid, c1) \<Rightarrow> send_command_await pid (meanwhile c1))"

subsection \<open>The logic helpers\<close>

definition get_logic_state ::
  "open_result \<Rightarrow> (client \<Rightarrow> client) \<Rightarrow> int \<Rightarrow> client \<Rightarrow> (error + bool) \<times> client" where
  "get_logic_state res meanwhile logic_id c =
     (case to_bytes logic_id 2 of
        Inl e \<Rightarrow> (Inl e, c)
      | Inr data \<Rightarrow>
          (case send_command res meanwhile ECP_CMD_SET_LOGIC data (Some logic_id) c of
             (Inl e, c1) \<Rightarrow> (Inl e, c1)
           | (Inr (_, resp_data), c1) \<Rightarrow>
               if length resp_data < 3
               then (Inl (DHDProtocolError UnexpectedResponseLength), c1)
               else (Inr (resp_data ! 2 \<noteq> 0), c1)))"

subsection \<open>Predicates used to state the properties\<close>

text \<open>
  When the scan completes a pending request with a block: the request is not done, the
  command is the expected one, and the expected logic id is None, or the payload has
  fewer than 2 bytes, or its first two bytes are the expected logic id.
\<close>

definition request_matches :: "int \<Rightarrow> bytes \<Rightarrow> future \<Rightarrow> bool" where
  "request_matches cmd data req =
     (\<not> fut_done req \<and> cmd = fst (dhd_match req) \<and>
      (snd (dhd_match req) = None \<or> length data < 2 \<or>
       snd (dhd_match req) = Some (from_bytes (take 2 data))))"

text \<open>
  The matching rule in the specification's words: the commands are equal, and the
  secondary key is absent, or the payload has at least 2 bytes and the big-endian
  uint16 of its first 2 bytes equals the secondary key.
\<close>

definition spec_matches :: "int \<Rightarrow> bytes \<Rightarrow> future \<Rightarrow> bool" where
  "spec_matches cmd data req =
     (cmd = fst (dhd_match req) \<and>
      (snd (dhd_match req) = None \<or>
       (2 \<le> length data \<and> snd (dhd_match req) = Some (from_bytes (take 2 data)))))"

text \<open>
  One pass through the body of the loop for a block of 16 bytes that has been read: it is
  parsed, which cannot fail, and what it carries is dispatched.
\<close>

definition dispatch_block :: "client \<Rightarrow> bytes \<Rightarrow> client" where
  "dispatch_block c raw =
     dispatch (from_bytes (py_slice raw 2 6)) (py_slice raw 6 (6 + unat (raw ! 0))) c"

text \<open>
  The client after \<^verbatim>\<open>get_logic_state(0x42)\<close> has connected, registered its request
  under pid 1 and written its block.
\<close>

definition one_request :: client where
  "one_request =
     init_client
       \<lparr>reader := Some StreamReader,
        writer := Some \<lparr>is_closing = False,
          written = [[2, 0, 0x11, 0x0E, 0, 0, 0, 0x42, 0, 0, 0, 0, 0, 0, 0, 0]]\<rparr>,
        listener_task := Some (Task False),
        pending := [1], pending_id := 1,
        futures := (futures init_client)
          (1 := \<lparr>dhd_match = (ECP_CMD_SET_LOGIC, Some 0x42), outcome = Waiting\<rparr>)\<rparr>"

text \<open>
  The same client after the peer has closed the connection: the listener has ended on
  end of stream, with the request still pending, and the writer is closing.
\<close>

definition lost_client :: client where
  "lost_client =
     one_request
       \<lparr>writer := Some \<lparr>is_closing = True,
          written = [[2, 0, 0x11, 0x0E, 0, 0, 0, 0x42, 0, 0, 0, 0, 0, 0, 0, 0]]\<rparr>,
        listener_task := Some (Task True),
        logged := [LogConnectionLost]\<rparr>"

section \<open>The frame codec\<close>

lemma from_bytes_snoc: "from_bytes (bs @ [b]) = from_bytes bs * 256 + uint b"
  by (simp add: from_bytes_def)

lemma div256_bound:
  fixes x :: int
  assumes "0 \<le> x" "x < 256 ^ Suc n"
  shows "0 \<le> x div 256 \<and> x div 256 < 256 ^ n"
proof -
  define q where "q = x div 256"
  define y :: int where "y = 256 ^ n"
  have e: "x = q * 256 + x mod 256" by (simp add: q_def)
  have m: "0 \<le> x mod 256" by simp
  have u: "x < 256 * y" using assms(2) by (simp add: y_def)
  have "q < y" using e m u by linarith
  moreover have "0 \<le> q" using assms(1) by (simp add: q_def pos_imp_zdiv_nonneg_iff)
  ultimately show ?thesis by (simp add: q_def y_def)
qed

lemma from_bytes_be_digits: "0 \<le> x \<Longrightarrow> x < 256 ^ n \<Longrightarrow> from_bytes (be_digits n x) = x"
proof (induction n arbitrary: x)
  case 0
  then show ?case by (simp add: from_bytes_def)
next
  case (Suc n)
  have d: "0 \<le> x div 256" "x div 256 < 256 ^ n"
    using div256_bound [OF Suc.prems] by simp_all
  have "uint (word_of_int (x mod 256) :: byte) = x mod 256"
    by (simp add: uint_word_of_int take_bit_eq_mod)
  then show ?case
    using Suc.IH [OF d] by (simp add: from_bytes_snoc)
qed

lemma length_be_digits: "length (be_digits n x) = n"
  by (induction n arbitrary: x) auto

lemma be_digits_4:
  "be_digits 4 c =
     [word_of_int (c div 16777216 mod 256), word_of_int (c div 65536 mod 256),
      word_of_int (c div 256 mod 256), word_of_int (c mod 256)]"
proof -
  have "be_digits 4 c = be_digits (Suc (Suc (Suc (Suc 0)))) c"
    by (simp add: numeral_eq_Suc)
  then show ?thesis
    by (simp add: zdiv_zmult2_eq [symmetric])
qed

lemma build_block_ok:
  assumes "length p \<le> 8" "0 \<le> c" "c < 2 ^ 32"
  shows "build_block c p =
     Inr ([word_of_nat (length p), 0] @ be_digits 4 c @ p @ replicate (8 - length p) 0 @ [0, 0])"
  using assms
  by (simp add: build_block_def to_bytes_def struct_pack_def pack_B_def pack_s_def ljust_def
      length_be_digits Let_def del: be_digits.simps)

lemma replicate_numeral: "replicate (numeral k) x = x # replicate (pred_numeral k) x"
  by (simp add: numeral_eq_Suc)

lemma py_slice_append: "length xs = i \<Longrightarrow> py_slice (xs @ ys) i j = take (j - i) ys"
  by (simp add: py_slice_def)

lemma uint_length_byte: "n \<le> 8 \<Longrightarrow> uint (word_of_nat n :: byte) = int n"
proof -
  assume "n \<le> 8"
  then have "unat (word_of_nat n :: byte) = n" by (simp add: unat_of_nat)
  then show ?thesis by (simp add: uint_nat)
qed

lemma parse_block_total:
  assumes "length b = 16"
  shows "parse_block b = Inr (uint (b ! 0), from_bytes (py_slice b 2 6), take (unat (b ! 0)) (drop 6 b))"
  using assms by (simp add: parse_block_def ECP_BLOCK_SIZE_def py_slice_def Let_def)

text \<open>
  C3: for every payload \<open>p\<close> of at most 8 bytes and every 32-bit command \<open>c\<close>,
  \<^verbatim>\<open>_build_block\<close> succeeds and \<^verbatim>\<open>_parse_block\<close> of its block returns exactly
  (len(p), c, p): the zero padding is discarded.
\<close>

theorem parse_build_round_trip:
  assumes "length p \<le> 8" and "0 \<le> c" and "c < 2 ^ 32"
  shows "\<exists>blk. build_block c p = Inr blk \<and> parse_block blk = Inr (int (length p), c, p)"
proof -
  let ?hd = "[word_of_nat (length p), 0::byte]"
  let ?blk = "?hd @ be_digits 4 c @ p @ replicate (8 - length p) 0 @ [0, 0::byte]"
  have b: "build_block c p = Inr ?blk" by (rule build_block_ok [OF assms])
  have len: "length ?blk = 16" using assms(1) by (simp add: length_be_digits del: be_digits.simps)
  have u: "uint (?blk ! 0) = int (length p)"
    using uint_length_byte [OF assms(1)] by simp
  have s1: "py_slice ?blk 2 6 = be_digits 4 c"
    using py_slice_append [of ?hd 2 _ 6]
    by (simp add: length_be_digits del: be_digits.simps)
  have s2: "py_slice ?blk 6 (6 + length p) = p"
    using py_slice_append [of "?hd @ be_digits 4 c" 6 _ "6 + length p"]
    by (simp add: length_be_digits del: be_digits.simps)
  have c4: "(256::int) ^ 4 = 2 ^ 32" by simp
  have f: "from_bytes (be_digits 4 c) = c"
    by (rule from_bytes_be_digits) (use assms c4 in simp_all)
  have "parse_block ?blk = Inr (int (length p), c, p)"
    unfolding parse_block_def ECP_BLOCK_SIZE_def Let_def using len u s1 s2 f
    by (simp del: be_digits.simps)
  with b show ?thesis by blast
qed

theorem parse_build_round_trip_witness:
  "\<exists>blk. build_block 0x110E0000 [0, 0x42, 1] = Inr blk
     \<and> parse_block blk = Inr (3, 0x110E0000, [0, 0x42, 1])"
  using parse_build_round_trip [of "[0, 0x42, 1]" "0x110E0000"] by simp

text \<open>
  C4: \<^verbatim>\<open>_build_block\<close> fails with ValueError for every payload of 9 bytes or more; for a
  payload of at most 8 bytes and a 32-bit command it returns the 16 bytes: length, 0x00,
  the command big-endian, the payload zero-padded to 8 bytes, 0x00 0x00. So for a 32-bit
  command it succeeds if and only if the payload has at most 8 bytes.
\<close>

theorem build_block_layout:
  "(8 < length p \<longrightarrow> build_block c p = Inl ValueError) \<and>
   (length p \<le> 8 \<and> 0 \<le> c \<and> c < 2 ^ 32 \<longrightarrow>
      build_block c p =
        Inr ([word_of_nat (length p), 0,
              word_of_int (c div 16777216 mod 256), word_of_int (c div 65536 mod 256),
              word_of_int (c div 256 mod 256), word_of_int (c mod 256)]
             @ p @ replicate (8 - length p) 0 @ [0, 0])) \<and>
   (0 \<le> c \<and> c < 2 ^ 32 \<longrightarrow>
      (\<exists>blk. build_block c p = Inr blk \<and> length blk = 16) = (length p \<le> 8))"
proof -
  have a: "8 < length p \<Longrightarrow> build_block c p = Inl ValueError"
    by (simp add: build_block_def)
  have b: "build_block c p =
        Inr ([word_of_nat (length p), 0,
              word_of_int (c div 16777216 mod 256), word_of_int (c div 65536 mod 256),
              word_of_int (c div 256 mod 256), word_of_int (c mod 256)]
             @ p @ replicate (8 - length p) 0 @ [0, 0])"
    if "length p \<le> 8" "0 \<le> c" "c < 2 ^ 32"
    using build_block_ok [OF that] by (simp add: be_digits_4 del: be_digits.simps)
  have c: "(\<exists>blk. build_block c p = Inr blk \<and> length blk = 16) = (length p \<le> 8)"
    if r: "0 \<le> c" "c < 2 ^ 32"
  proof (cases "length p \<le> 8")
    case True
    then show ?thesis using b [OF True r] by simp
  next
    case False
    then show ?thesis using a by simp
  qed
  show ?thesis using a b c by blast
qed

theorem build_block_layout_witness:
  "build_block 0x110E0000 [0, 0, 0, 0, 0, 0, 0, 0, 0] = Inl ValueError \<and>
   build_block 0x110E0000 [0xAB] = Inr [1, 0, 0x11, 0x0E, 0, 0, 0xAB, 0, 0, 0, 0, 0, 0, 0, 0, 0] \<and>
   build_block 0x110E0000 [] = Inr [0, 0, 0x11, 0x0E, 0, 0, 0, 0, 0, 0, 0, 0, 0, 0, 0, 0]"
  using build_block_layout [of "[0, 0, 0, 0, 0, 0, 0, 0, 0]" "0x110E0000"]
    build_block_layout [of "[0xAB]" "0x110E0000"]
    build_block_layout [of "[]" "0x110E0000"]
  by (simp add: replicate_numeral)

text \<open>
  C9: \<^verbatim>\<open>_parse_block\<close> succeeds on every 16-byte input and never checks byte 0 against
  8: the payload is \<^verbatim>\<open>block[6 : 6 + length]\<close>, cut at the end of the block, so a length
  byte above 8 gives a payload of 9 or 10 bytes and a length field above 8.
\<close>

theorem parse_block_unchecked_length:
  assumes "length b = 16"
  shows "\<exists>data. parse_block b = Inr (uint (b ! 0), from_bytes (py_slice b 2 6), data)
           \<and> data = take (unat (b ! 0)) (drop 6 b)
           \<and> length data = min (unat (b ! 0)) 10
           \<and> (8 < unat (b ! 0) \<longrightarrow> 8 < length data \<and> length data \<le> 10)"
  using assms parse_block_total [OF assms] by auto

theorem parse_block_unchecked_length_witness:
  "parse_block [200, 0, 0x11, 0x0E, 0, 0, 1, 2, 3, 4, 5, 6, 7, 8, 9, 10]
     = Inr (200, 0x110E0000, [1, 2, 3, 4, 5, 6, 7, 8, 9, 10])"
  using parse_block_unchecked_length [of "[200, 0, 0x11, 0x0E, 0, 0, 1, 2, 3, 4, 5, 6, 7, 8, 9, 10]"]
  by (simp add: from_bytes_def py_slice_def)

section \<open>The correlation of blocks with pending requests\<close>

lemma deliver_find:
  "deliver cmd data pids futs =
     (case find (\<lambda>pid. request_matches cmd data (futs pid)) pids of
        None \<Rightarrow> (futs, False)
      | Some pid \<Rightarrow> (futs(pid := set_result (futs pid) (cmd, data)), True))"
proof (induction pids)
  case Nil
  show ?case by simp
next
  case (Cons pid rest)
  show ?case
  proof (cases "request_matches cmd data (futs pid)")
    case True
    then show ?thesis
      by (auto simp: request_matches_def Let_def py_slice_def)
  next
    case False
    then have "deliver cmd data (pid # rest) futs = deliver cmd data rest futs"
      by (auto simp: request_matches_def Let_def py_slice_def)
    with False Cons.IH show ?thesis by simp
  qed
qed


lemma dispatch_pending: "pending (dispatch cmd data c) = pending c"
  by (simp add: dispatch_def Let_def split: prod.split option.split call_outcome.split)

lemma dispatch_futures:
  "futures (dispatch cmd data c) = fst (deliver cmd data (pending c) (futures c))"
  by (simp add: dispatch_def Let_def split: prod.split option.split call_outcome.split)

lemma dispatch_reader: "reader (dispatch cmd data c) = reader c"
  by (simp add: dispatch_def Let_def split: prod.split option.split call_outcome.split)

text \<open>The example client is the one the code reaches from a fresh client.\<close>

lemma one_request_reached:
  "send_command_begin Opened ECP_CMD_SET_LOGIC [0, 0x42] (Some 0x42) init_client
     = (Inr 1, one_request)"
  by (simp add: send_command_begin_def ensure_connected_def connect_def connected_def
      init_client_def start_listener_def one_request_def build_block_ok be_digits_4
      ECP_CMD_SET_LOGIC_def Let_def replicate_numeral)

lemma one_request_reader: "reader one_request \<noteq> None"
  by (simp add: one_request_def init_client_def)

lemma send_command_one_request:
  "send_command Opened meanwhile ECP_CMD_SET_LOGIC [0, 0x42] (Some 0x42) init_client
     = send_command_await 1 (meanwhile one_request)"
  by (simp add: send_command_def one_request_reached)

lemma empty_frame_parse:
  "parse_block [0, 0, 0x11, 0x0E, 0, 0, 0, 0, 0, 0, 0, 0, 0, 0, 0, 0]
     = Inr (0, ECP_CMD_SET_LOGIC, [])"
  by (simp add: parse_block_def ECP_BLOCK_SIZE_def py_slice_def from_bytes_def
      ECP_CMD_SET_LOGIC_def)

lemma reply_parse:
  "parse_block [3, 0, 0x11, 0x0E, 0, 0, 0, 0x42, 1, 0, 0, 0, 0, 0, 0, 0]
     = Inr (3, ECP_CMD_SET_LOGIC, [0, 0x42, 1])"
  by (simp add: parse_block_def ECP_BLOCK_SIZE_def py_slice_def from_bytes_def
      ECP_CMD_SET_LOGIC_def)

lemma short_reply_parse:
  "parse_block [2, 0, 0x11, 0x0E, 0, 0, 0, 0x42, 0, 0, 0, 0, 0, 0, 0, 0]
     = Inr (2, ECP_CMD_SET_LOGIC, [0, 0x42])"
  by (simp add: parse_block_def ECP_BLOCK_SIZE_def py_slice_def from_bytes_def
      ECP_CMD_SET_LOGIC_def)

lemma push_frame_parse:
  "parse_block [3, 0, 0x11, 0x0E, 0, 0, 0, 0x44, 1, 0, 0, 0, 0, 0, 0, 0]
     = Inr (3, ECP_CMD_SET_LOGIC, [0, 0x44, 1])"
  by (simp add: parse_block_def ECP_BLOCK_SIZE_def py_slice_def from_bytes_def
      ECP_CMD_SET_LOGIC_def)

text \<open>
  C1, as the code has it: the scan goes through \<^verbatim>\<open>_pending\<close> in insertion order and
  completes the first request that is not done, expects the block's command and, when it
  expects a logic id, either finds that id in the first two payload bytes or finds fewer
  than two payload bytes. That one future gets (command, payload), no other future
  changes, and \<^verbatim>\<open>_pending\<close> keeps all its keys: the completed request is skipped by
  later scans because it is done, and leaves the dict when its \<^verbatim>\<open>send_command\<close> pops it.
\<close>

theorem dispatch_first_match:
  "futures (dispatch cmd data c) =
     (case find (\<lambda>pid. request_matches cmd data (futures c pid)) (pending c) of
        None \<Rightarrow> futures c
      | Some pid \<Rightarrow> (futures c)(pid := (futures c pid)\<lparr>outcome := Result (cmd, data)\<rparr>))
   \<and> pending (dispatch cmd data c) = pending c"
  by (simp add: dispatch_futures dispatch_pending deliver_find set_result_def split: option.split)

theorem dispatch_first_match_witness:
  "outcome (futures (dispatch ECP_CMD_SET_LOGIC [0, 0x42, 1] one_request) 1)
     = Result (ECP_CMD_SET_LOGIC, [0, 0x42, 1])
   \<and> outcome (futures (dispatch ECP_CMD_SET_LOGIC [0, 0x43, 1] one_request) 1) = Waiting
   \<and> pending (dispatch ECP_CMD_SET_LOGIC [0, 0x42, 1] one_request) = [1]"
  using dispatch_first_match [of ECP_CMD_SET_LOGIC "[0, 0x42, 1]" one_request]
    dispatch_first_match [of ECP_CMD_SET_LOGIC "[0, 0x43, 1]" one_request]
  by (simp add: one_request_def init_client_def request_matches_def fut_done_def from_bytes_def)

text \<open>
  C1 as stated fails on a block with fewer than two payload bytes: the request for logic
  0x42 does not match an empty logic block by the specification's rule, yet the scan
  completes it with that block, the caller of \<^verbatim>\<open>send_command\<close> gets the empty payload
  as its response, and the listener leaves the key in \<^verbatim>\<open>_pending\<close>.
\<close>

theorem dispatch_short_payload_counterexample:
  "\<not> spec_matches ECP_CMD_SET_LOGIC [] (futures one_request 1)
   \<and> outcome (futures (dispatch ECP_CMD_SET_LOGIC [] one_request) 1)
       = Result (ECP_CMD_SET_LOGIC, [])
   \<and> pending (dispatch ECP_CMD_SET_LOGIC [] one_request) = [1]
   \<and> fst (send_command Opened
            (\<lambda>c. snd (listener_loop c
               [Block [0, 0, 0x11, 0x0E, 0, 0, 0, 0, 0, 0, 0, 0, 0, 0, 0, 0]]))
            ECP_CMD_SET_LOGIC [0, 0x42] (Some 0x42) init_client)
       = Inr (ECP_CMD_SET_LOGIC, [])"
proof -
  have a: "\<not> spec_matches ECP_CMD_SET_LOGIC [] (futures one_request 1)"
    by (simp add: spec_matches_def one_request_def)
  have b: "outcome (futures (dispatch ECP_CMD_SET_LOGIC [] one_request) 1)
       = Result (ECP_CMD_SET_LOGIC, [])"
    by (simp add: dispatch_futures one_request_def init_client_def fut_done_def Let_def
        set_result_def)
  have m: "snd (listener_loop one_request
               [Block [0, 0, 0x11, 0x0E, 0, 0, 0, 0, 0, 0, 0, 0, 0, 0, 0, 0]])
      = dispatch ECP_CMD_SET_LOGIC [] one_request"
    using one_request_reader by (auto simp: listener_loop_def empty_frame_parse)
  have d: "fst (send_command Opened
            (\<lambda>c. snd (listener_loop c
               [Block [0, 0, 0x11, 0x0E, 0, 0, 0, 0, 0, 0, 0, 0, 0, 0, 0, 0]]))
            ECP_CMD_SET_LOGIC [0, 0x42] (Some 0x42) init_client)
       = Inr (ECP_CMD_SET_LOGIC, [])"
    unfolding send_command_one_request m using b
    by (simp add: send_command_await_def Let_def)
  show ?thesis using a b d by (simp add: dispatch_pending) (simp add: one_request_def init_client_def)
qed

section \<open>The listener loop\<close>

lemma deliver_not_delivered:
  "\<not> snd (deliver cmd data pids futs) \<Longrightarrow> fst (deliver cmd data pids futs) = futs"
  by (induction pids) (auto simp: Let_def split: if_splits)

lemma listener_while_block:
  "length raw = 16 \<Longrightarrow> listener_while c (Block raw # evs) = listener_while (dispatch_block c raw) evs"
  by (simp add: parse_block_def ECP_BLOCK_SIZE_def dispatch_block_def Let_def nat_uint_eq)

lemma listener_while_blocks:
  "\<forall>raw\<in>set raws. length raw = 16 \<Longrightarrow>
     listener_while c (map Block raws @ evs) = listener_while (foldl dispatch_block c raws) evs"
proof (induction raws arbitrary: c)
  case Nil
  show ?case by simp
next
  case (Cons raw raws)
  then have l: "length raw = 16" and r: "\<forall>r\<in>set raws. length r = 16" by simp_all
  have "listener_while c (map Block (raw # raws) @ evs)
      = listener_while (dispatch_block c raw) (map Block raws @ evs)"
    using listener_while_block [OF l] by simp
  also have "\<dots> = listener_while (foldl dispatch_block (dispatch_block c raw) raws) evs"
    by (rule Cons.IH [OF r])
  finally show ?case by simp
qed

lemma dispatch_push:
  assumes "logic_callback c = Some cb" and "3 \<le> length data"
    and "\<not> snd (deliver ECP_CMD_SET_LOGIC data (pending c) (futures c))"
  shows "dispatch ECP_CMD_SET_LOGIC data c =
     c\<lparr>futures := fst (deliver ECP_CMD_SET_LOGIC data (pending c) (futures c)),
       calls := calls c @ [(from_bytes (take 2 data), data ! 2 \<noteq> 0)],
       logged := logged c @
         (case cb (from_bytes (take 2 data)) (data ! 2 \<noteq> 0) of
            Returned \<Rightarrow> [] | Raised \<Rightarrow> [LogCallbackError])\<rparr>"
proof -
  obtain futs d where e: "deliver ECP_CMD_SET_LOGIC data (pending c) (futures c) = (futs, d)"
    by (cases "deliver ECP_CMD_SET_LOGIC data (pending c) (futures c)")
  with assms(3) have d: "d = False" by simp
  show ?thesis
    using assms(1,2) e d
    by (cases "cb (from_bytes (take 2 data)) (data ! 2 \<noteq> 0)")
       (simp_all add: dispatch_def Let_def py_slice_def)
qed

lemma dispatch_block_raised:
  assumes "logic_callback c = Some cb"
    and "length raw = 16"
    and "parse_block raw = Inr (len, ECP_CMD_SET_LOGIC, data)"
    and "3 \<le> length data"
    and "\<not> snd (deliver ECP_CMD_SET_LOGIC data (pending c) (futures c))"
    and "cb (from_bytes (take 2 data)) (data ! 2 \<noteq> 0) = Raised"
  shows "dispatch_block c raw =
     c\<lparr>calls := calls c @ [(from_bytes (take 2 data), data ! 2 \<noteq> 0)],
       logged := logged c @ [LogCallbackError]\<rparr>"
proof -
  have d: "dispatch_block c raw = dispatch ECP_CMD_SET_LOGIC data c"
    using assms(2,3)
    by (auto simp: parse_block_def ECP_BLOCK_SIZE_def dispatch_block_def Let_def nat_uint_eq)
  show ?thesis
    unfolding d using dispatch_push [OF assms(1,4,5)] assms(6)
    by (simp add: deliver_not_delivered [OF assms(5)])
qed

lemma push43_parse:
  "parse_block [3, 0, 0x11, 0x0E, 0, 0, 0, 0x43, 1, 0, 0, 0, 0, 0, 0, 0]
     = Inr (3, ECP_CMD_SET_LOGIC, [0, 0x43, 1])"
  by (simp add: parse_block_def ECP_BLOCK_SIZE_def py_slice_def from_bytes_def
      ECP_CMD_SET_LOGIC_def)

text \<open>
  C7: a block with the logic command that the scan delivers to no pending request and
  that carries at least 3 payload bytes makes the loop call the registered callback
  once, with the big-endian logic id of the first two bytes and the state "third byte
  is not zero"; when the callback raises, the error is logged and the loop goes on to
  the next read as it does when the callback returns.
\<close>

theorem push_callback_once:
  assumes "reader c \<noteq> None"
    and "logic_callback c = Some cb"
    and "parse_block raw = Inr (len, ECP_CMD_SET_LOGIC, data)"
    and "3 \<le> length data"
    and "\<not> snd (deliver ECP_CMD_SET_LOGIC data (pending c) (futures c))"
  shows "listener_loop c (Block raw # evs)
           = listener_loop (dispatch ECP_CMD_SET_LOGIC data c) evs
     \<and> calls (dispatch ECP_CMD_SET_LOGIC data c)
           = calls c @ [(from_bytes (take 2 data), data ! 2 \<noteq> 0)]
     \<and> logged (dispatch ECP_CMD_SET_LOGIC data c)
           = logged c @ (case cb (from_bytes (take 2 data)) (data ! 2 \<noteq> 0) of
                           Returned \<Rightarrow> [] | Raised \<Rightarrow> [LogCallbackError])"
proof -
  have l: "listener_loop c (Block raw # evs)
           = listener_loop (dispatch ECP_CMD_SET_LOGIC data c) evs"
    using assms(1,3) by (auto simp: listener_loop_def dispatch_reader)
  show ?thesis
    using l dispatch_push [OF assms(2,4,5)] by simp
qed

theorem push_callback_once_witness:
  "listener_loop (one_request\<lparr>logic_callback := Some (\<lambda>_ _. Raised)\<rparr>)
      [Block [3, 0, 0x11, 0x0E, 0, 0, 0, 0x44, 1, 0, 0, 0, 0, 0, 0, 0]]
     = (Suspended,
        one_request\<lparr>logic_callback := Some (\<lambda>_ _. Raised),
          calls := [(0x44, True)], logged := [LogCallbackError]\<rparr>)"
proof -
  let ?c = "one_request\<lparr>logic_callback := Some (\<lambda>_ _. Raised)\<rparr>"
  have h1: "reader ?c \<noteq> None" by (simp add: one_request_def init_client_def)
  have h2: "logic_callback ?c = Some (\<lambda>_ _. Raised)" by simp
  have h4: "3 \<le> length [0, 0x44, 1 :: byte]" by simp
  have h5: "\<not> snd (deliver ECP_CMD_SET_LOGIC [0, 0x44, 1] (pending ?c) (futures ?c))"
    by (simp add: one_request_def init_client_def fut_done_def Let_def py_slice_def from_bytes_def)
  have d: "dispatch ECP_CMD_SET_LOGIC [0, 0x44, 1] ?c
      = one_request\<lparr>logic_callback := Some (\<lambda>_ _. Raised),
          calls := [(0x44, True)], logged := [LogCallbackError]\<rparr>"
    by (simp add: dispatch_def one_request_def init_client_def fut_done_def Let_def py_slice_def
        from_bytes_def)
  have r: "reader (one_request\<lparr>logic_callback := Some (\<lambda>_ _. Raised),
          calls := [(0x44, True)], logged := [LogCallbackError]\<rparr>) \<noteq> None"
    by (simp add: one_request_def init_client_def)
  have "listener_loop ?c [Block [3, 0, 0x11, 0x0E, 0, 0, 0, 0x44, 1, 0, 0, 0, 0, 0, 0, 0]]
      = listener_loop (dispatch ECP_CMD_SET_LOGIC [0, 0x44, 1] ?c) []"
    using push_callback_once [OF h1 h2 push_frame_parse h4 h5, of "[]"] by (rule conjunct1)
  also have "\<dots> = (Suspended, one_request\<lparr>logic_callback := Some (\<lambda>_ _. Raised),
          calls := [(0x44, True)], logged := [LogCallbackError]\<rparr>)"
    unfolding d using r by (auto simp: listener_loop_def)
  finally show ?thesis .
qed

text \<open>
  C8, as the code has it: every block of 16 bytes that is read is dispatched and followed
  by the next read, and a callback that raises is caught inside the loop: the call is
  made, the error is logged, and the client goes on to the next read. After the blocks
  the loop ends by \<^verbatim>\<open>break\<close> on end of stream and by \<^verbatim>\<open>return\<close> on cancellation,
  and it also ends, logged as "Listener loop crashed", when the read raises any other
  exception.
\<close>

theorem listener_loop_run:
  assumes "reader c \<noteq> None"
    and "\<forall>raw\<in>set raws. length raw = ECP_BLOCK_SIZE"
  shows "listener_loop c (map Block raws) = (Suspended, foldl dispatch_block c raws)
     \<and> listener_loop c (map Block raws @ IncompleteRead # evs)
         = (ConnectionLost,
            task_finished ((foldl dispatch_block c raws)
              \<lparr>logged := logged (foldl dispatch_block c raws) @ [LogConnectionLost]\<rparr>))
     \<and> listener_loop c (map Block raws @ ReadCancelled # evs)
         = (TaskCancelled, task_finished (foldl dispatch_block c raws))
     \<and> listener_loop c (map Block raws @ ReadError # evs)
         = (Crashed,
            task_finished ((foldl dispatch_block c raws)
              \<lparr>logged := logged (foldl dispatch_block c raws) @ [LogCrashed]\<rparr>))
     \<and> (logic_callback c = Some cb
          \<and> length raw = ECP_BLOCK_SIZE
          \<and> parse_block raw = Inr (len, ECP_CMD_SET_LOGIC, data)
          \<and> 3 \<le> length data
          \<and> \<not> snd (deliver ECP_CMD_SET_LOGIC data (pending c) (futures c))
          \<and> cb (from_bytes (take 2 data)) (data ! 2 \<noteq> 0) = Raised
        \<longrightarrow> dispatch_block c raw =
              c\<lparr>calls := calls c @ [(from_bytes (take 2 data), data ! 2 \<noteq> 0)],
                logged := logged c @ [LogCallbackError]\<rparr>)"
proof -
  have b: "\<forall>raw\<in>set raws. length raw = 16"
    using assms(2) by (simp add: ECP_BLOCK_SIZE_def)
  have w: "listener_loop c evs' = listener_while c evs'" for evs'
    using assms(1) by (auto simp: listener_loop_def)
  have 1: "listener_loop c (map Block raws) = (Suspended, foldl dispatch_block c raws)"
    using listener_while_blocks [OF b, of c "[]"] by (simp add: w)
  have 2: "listener_loop c (map Block raws @ IncompleteRead # evs)
         = (ConnectionLost,
            task_finished ((foldl dispatch_block c raws)
              \<lparr>logged := logged (foldl dispatch_block c raws) @ [LogConnectionLost]\<rparr>))"
    by (simp add: w listener_while_blocks [OF b])
  have 3: "listener_loop c (map Block raws @ ReadCancelled # evs)
         = (TaskCancelled, task_finished (foldl dispatch_block c raws))"
    by (simp add: w listener_while_blocks [OF b])
  have 4: "listener_loop c (map Block raws @ ReadError # evs)
         = (Crashed,
            task_finished ((foldl dispatch_block c raws)
              \<lparr>logged := logged (foldl dispatch_block c raws) @ [LogCrashed]\<rparr>))"
    by (simp add: w listener_while_blocks [OF b])
  have 5: "dispatch_block c raw =
              c\<lparr>calls := calls c @ [(from_bytes (take 2 data), data ! 2 \<noteq> 0)],
                logged := logged c @ [LogCallbackError]\<rparr>"
    if "logic_callback c = Some cb" "length raw = ECP_BLOCK_SIZE"
      "parse_block raw = Inr (len, ECP_CMD_SET_LOGIC, data)" "3 \<le> length data"
      "\<not> snd (deliver ECP_CMD_SET_LOGIC data (pending c) (futures c))"
      "cb (from_bytes (take 2 data)) (data ! 2 \<noteq> 0) = Raised"
    using dispatch_block_raised [of c cb raw len data] that by (simp add: ECP_BLOCK_SIZE_def)
  show ?thesis using 1 2 3 4 5 by blast
qed

theorem listener_loop_run_witness:
  "fst (listener_loop (one_request\<lparr>logic_callback := Some (\<lambda>_ _. Raised)\<rparr>)
          [Block [3, 0, 0x11, 0x0E, 0, 0, 0, 0x43, 1, 0, 0, 0, 0, 0, 0, 0],
           Block [3, 0, 0x11, 0x0E, 0, 0, 0, 0x44, 1, 0, 0, 0, 0, 0, 0, 0],
           IncompleteRead]) = ConnectionLost
   \<and> calls (snd (listener_loop (one_request\<lparr>logic_callback := Some (\<lambda>_ _. Raised)\<rparr>)
          [Block [3, 0, 0x11, 0x0E, 0, 0, 0, 0x43, 1, 0, 0, 0, 0, 0, 0, 0],
           Block [3, 0, 0x11, 0x0E, 0, 0, 0, 0x44, 1, 0, 0, 0, 0, 0, 0, 0],
           IncompleteRead])) = [(0x43, True), (0x44, True)]
   \<and> logged (snd (listener_loop (one_request\<lparr>logic_callback := Some (\<lambda>_ _. Raised)\<rparr>)
          [Block [3, 0, 0x11, 0x0E, 0, 0, 0, 0x43, 1, 0, 0, 0, 0, 0, 0, 0],
           Block [3, 0, 0x11, 0x0E, 0, 0, 0, 0x44, 1, 0, 0, 0, 0, 0, 0, 0],
           IncompleteRead])) = [LogCallbackError, LogCallbackError, LogConnectionLost]
   \<and> dispatch_block (one_request\<lparr>logic_callback := Some (\<lambda>_ _. Raised)\<rparr>)
          [3, 0, 0x11, 0x0E, 0, 0, 0, 0x43, 1, 0, 0, 0, 0, 0, 0, 0]
       = one_request\<lparr>logic_callback := Some (\<lambda>_ _. Raised),
           calls := [(0x43, True)], logged := [LogCallbackError]\<rparr>"
proof -
  let ?c = "one_request\<lparr>logic_callback := Some (\<lambda>_ _. Raised)\<rparr>"
  let ?p43 = "[3, 0, 0x11, 0x0E, 0, 0, 0, 0x43, 1, 0, 0, 0, 0, 0, 0, 0] :: bytes"
  let ?p44 = "[3, 0, 0x11, 0x0E, 0, 0, 0, 0x44, 1, 0, 0, 0, 0, 0, 0, 0] :: bytes"
  have h1: "reader ?c \<noteq> None" by (simp add: one_request_def init_client_def)
  have h2: "\<forall>raw\<in>set [?p43, ?p44]. length raw = ECP_BLOCK_SIZE"
    by (simp add: ECP_BLOCK_SIZE_def)
  have h3: "logic_callback ?c = Some (\<lambda>_ _. Raised)
          \<and> length ?p43 = ECP_BLOCK_SIZE
          \<and> parse_block ?p43 = Inr (3, ECP_CMD_SET_LOGIC, [0, 0x43, 1])
          \<and> 3 \<le> length [0, 0x43, 1 :: byte]
          \<and> \<not> snd (deliver ECP_CMD_SET_LOGIC [0, 0x43, 1] (pending ?c) (futures ?c))
          \<and> (\<lambda>_ _. Raised) (from_bytes (take 2 [0, 0x43, 1])) ([0, 0x43, 1 :: byte] ! 2 \<noteq> 0) = Raised"
    by (simp add: push43_parse ECP_BLOCK_SIZE_def)
       (simp add: one_request_def init_client_def fut_done_def Let_def py_slice_def from_bytes_def)
  note t = listener_loop_run [OF h1 h2, of "[]" "\<lambda>_ _. Raised" ?p43 3 "[0, 0x43, 1]"]
  have d1: "dispatch_block ?c ?p43
       = one_request\<lparr>logic_callback := Some (\<lambda>_ _. Raised),
           calls := [(0x43, True)], logged := [LogCallbackError]\<rparr>"
    using t h3 by (simp add: from_bytes_def) (simp add: one_request_def init_client_def)
  have d2: "dispatch_block (one_request\<lparr>logic_callback := Some (\<lambda>_ _. Raised),
           calls := [(0x43, True)], logged := [LogCallbackError]\<rparr>) ?p44
       = one_request\<lparr>logic_callback := Some (\<lambda>_ _. Raised),
           calls := [(0x43, True), (0x44, True)],
           logged := [LogCallbackError, LogCallbackError]\<rparr>"
    by (simp add: dispatch_block_def dispatch_def one_request_def init_client_def fut_done_def
        Let_def py_slice_def from_bytes_def ECP_CMD_SET_LOGIC_def)
  have f: "foldl dispatch_block ?c [?p43, ?p44]
       = one_request\<lparr>logic_callback := Some (\<lambda>_ _. Raised),
           calls := [(0x43, True), (0x44, True)],
           logged := [LogCallbackError, LogCallbackError]\<rparr>"
    by (simp add: d1 d2)
  have l: "listener_loop ?c [Block ?p43, Block ?p44, IncompleteRead]
       = (ConnectionLost,
          task_finished ((foldl dispatch_block ?c [?p43, ?p44])
            \<lparr>logged := logged (foldl dispatch_block ?c [?p43, ?p44]) @ [LogConnectionLost]\<rparr>))"
    using t by simp
  show ?thesis
    unfolding l f using d1 by (simp add: task_finished_def)
qed

text \<open>
  C8 as stated fails: a read that raises an exception other than
  \<^verbatim>\<open>IncompleteReadError\<close> ends the loop, with neither end of stream nor cancellation
  among the reads, and the block that follows is never read.
\<close>

theorem listener_crash_counterexample:
  "IncompleteRead \<notin> set [ReadError, Block [3, 0, 0x11, 0x0E, 0, 0, 0, 0x44, 1, 0, 0, 0, 0, 0, 0, 0]]
   \<and> ReadCancelled \<notin> set [ReadError, Block [3, 0, 0x11, 0x0E, 0, 0, 0, 0x44, 1, 0, 0, 0, 0, 0, 0, 0]]
   \<and> listener_loop (one_request\<lparr>logic_callback := Some (\<lambda>_ _. Returned)\<rparr>)
        [ReadError, Block [3, 0, 0x11, 0x0E, 0, 0, 0, 0x44, 1, 0, 0, 0, 0, 0, 0, 0]]
      = (Crashed,
         one_request\<lparr>logic_callback := Some (\<lambda>_ _. Returned),
           listener_task := Some (Task True), logged := [LogCrashed]\<rparr>)"
  by (simp add: listener_loop_def one_request_def init_client_def task_finished_def)

text \<open>
  C2: what the code does when the stream ends while the query for logic 0x42 is in
  flight. The loop logs the loss and returns; the future of the request is still
  waiting and still in \<^verbatim>\<open>_pending\<close>, so the caller runs into the timeout and gets
  the protocol error. \<^verbatim>\<open>_stop_listener\<close>, on the same client, fails the future with
  the connection error.
\<close>

theorem eof_leaves_requests_waiting:
  "listener_loop one_request [IncompleteRead]
     = (ConnectionLost,
        one_request\<lparr>listener_task := Some (Task True), logged := [LogConnectionLost]\<rparr>)
   \<and> outcome (futures (snd (listener_loop one_request [IncompleteRead])) 1) = Waiting
   \<and> pending (snd (listener_loop one_request [IncompleteRead])) = [1]
   \<and> fst (send_command Opened (\<lambda>c. snd (listener_loop c [IncompleteRead]))
            ECP_CMD_SET_LOGIC [0, 0x42] (Some 0x42) init_client)
       = Inl (DHDProtocolError TimeoutWaiting)
   \<and> outcome (futures (stop_listener one_request) 1)
       = Exception (DHDConnectionError Disconnected)"
proof -
  have l: "listener_loop one_request [IncompleteRead]
     = (ConnectionLost,
        one_request\<lparr>listener_task := Some (Task True), logged := [LogConnectionLost]\<rparr>)"
    by (simp add: listener_loop_def task_finished_def one_request_def init_client_def)
  have w: "outcome (futures one_request 1) = Waiting"
    by (simp add: one_request_def)
  have p: "pending one_request = [1]"
    by (simp add: one_request_def init_client_def)
  have s: "fst (send_command Opened (\<lambda>c. snd (listener_loop c [IncompleteRead]))
            ECP_CMD_SET_LOGIC [0, 0x42] (Some 0x42) init_client)
       = Inl (DHDProtocolError TimeoutWaiting)"
    unfolding send_command_one_request l using w
    by (simp add: send_command_await_def Let_def)
  have d: "outcome (futures (stop_listener one_request) 1)
       = Exception (DHDConnectionError Disconnected)"
    by (simp add: stop_listener_def one_request_def init_client_def fut_done_def
        set_exception_def)
  show ?thesis using l w p s d by simp
qed

section \<open>The client facade\<close>



lemma be_digits_2:
  "be_digits 2 x = [word_of_int (x div 256 mod 256), word_of_int (x mod 256)]"
proof -
  have "be_digits 2 x = be_digits (Suc (Suc 0)) x" by (simp add: numeral_eq_Suc)
  then show ?thesis by simp
qed

lemma one_request_answered:
  "outcome (futures (dispatch ECP_CMD_SET_LOGIC [0, 0x42, 1] one_request) 1)
     = Result (ECP_CMD_SET_LOGIC, [0, 0x42, 1])"
  by (simp add: dispatch_futures one_request_def init_client_def fut_done_def Let_def
      py_slice_def from_bytes_def set_result_def)

lemma one_request_answered_short:
  "outcome (futures (dispatch ECP_CMD_SET_LOGIC [0, 0x42] one_request) 1)
     = Result (ECP_CMD_SET_LOGIC, [0, 0x42])"
  by (simp add: dispatch_futures one_request_def init_client_def fut_done_def Let_def
      py_slice_def from_bytes_def set_result_def)

text \<open>
  C6: for a 16-bit logic id, \<^verbatim>\<open>get_logic_state\<close> is \<^verbatim>\<open>send_command\<close> with the logic
  command, the two big-endian bytes of the id as payload and the id as the key to
  match; an error of \<^verbatim>\<open>send_command\<close> is passed on, a response payload of fewer than
  3 bytes is the protocol error "Unexpected response length", and otherwise the result
  is whether the third payload byte is not zero.
\<close>

theorem get_logic_state_reply:
  assumes "0 \<le> logic_id" and "logic_id < 65536"
  shows "get_logic_state res meanwhile logic_id c =
     (case send_command res meanwhile ECP_CMD_SET_LOGIC
             [word_of_int (logic_id div 256 mod 256), word_of_int (logic_id mod 256)]
             (Some logic_id) c of
        (Inl e, c1) \<Rightarrow> (Inl e, c1)
      | (Inr (resp_cmd, resp_data), c1) \<Rightarrow>
          if length resp_data < 3
          then (Inl (DHDProtocolError UnexpectedResponseLength), c1)
          else (Inr (resp_data ! 2 \<noteq> 0), c1))"
  using assms by (simp add: get_logic_state_def to_bytes_def be_digits_2 del: be_digits.simps)

theorem get_logic_state_reply_witness:
  "fst (get_logic_state Opened
          (\<lambda>c. snd (listener_loop c
             [Block [3, 0, 0x11, 0x0E, 0, 0, 0, 0x42, 1, 0, 0, 0, 0, 0, 0, 0]]))
          0x42 init_client) = Inr True
   \<and> fst (get_logic_state Opened
          (\<lambda>c. snd (listener_loop c
             [Block [2, 0, 0x11, 0x0E, 0, 0, 0, 0x42, 0, 0, 0, 0, 0, 0, 0, 0]]))
          0x42 init_client) = Inl (DHDProtocolError UnexpectedResponseLength)"
proof -
  let ?mw = "\<lambda>c. snd (listener_loop c
             [Block [3, 0, 0x11, 0x0E, 0, 0, 0, 0x42, 1, 0, 0, 0, 0, 0, 0, 0]])"
  let ?mw2 = "\<lambda>c. snd (listener_loop c
             [Block [2, 0, 0x11, 0x0E, 0, 0, 0, 0x42, 0, 0, 0, 0, 0, 0, 0, 0]])"
  have m: "?mw one_request = dispatch ECP_CMD_SET_LOGIC [0, 0x42, 1] one_request"
    using one_request_reader by (auto simp: listener_loop_def reply_parse)
  have m2: "?mw2 one_request = dispatch ECP_CMD_SET_LOGIC [0, 0x42] one_request"
    using one_request_reader by (auto simp: listener_loop_def short_reply_parse)
  have s: "fst (send_command Opened ?mw ECP_CMD_SET_LOGIC [0, 0x42] (Some 0x42) init_client)
      = Inr (ECP_CMD_SET_LOGIC, [0, 0x42, 1])"
    unfolding send_command_one_request m
    using one_request_answered by (simp add: send_command_await_def Let_def)
  have s2: "fst (send_command Opened ?mw2 ECP_CMD_SET_LOGIC [0, 0x42] (Some 0x42) init_client)
      = Inr (ECP_CMD_SET_LOGIC, [0, 0x42])"
    unfolding send_command_one_request m2
    using one_request_answered_short by (simp add: send_command_await_def Let_def)
  have a: "fst (get_logic_state Opened ?mw 0x42 init_client) = Inr True"
    using get_logic_state_reply [of "0x42" Opened ?mw init_client] s
    by (simp split: prod.splits sum.splits)
  have b: "fst (get_logic_state Opened ?mw2 0x42 init_client)
      = Inl (DHDProtocolError UnexpectedResponseLength)"
    using get_logic_state_reply [of "0x42" Opened ?mw2 init_client] s2
    by (simp split: prod.splits sum.splits)
  show ?thesis using a b by simp
qed

text \<open>
  C10, as the code has it: when the client is not connected and opening the connection
  fails, by an OS error or by the timeout, \<^verbatim>\<open>connect\<close> raises the connection error
  and leaves reader and writer None and every other field as it was; the client is then
  not connected and the listener task is the one it was, so this call has started no
  listener. The client is as it was before the call exactly when it had neither reader
  nor writer.
\<close>

theorem connect_failure_resets:
  assumes "\<not> connected c" and "res \<noteq> Opened"
  shows "connect res c = (Inl (DHDConnectionError FailedToConnect), c\<lparr>reader := None, writer := None\<rparr>)
     \<and> \<not> connected (snd (connect res c))
     \<and> listener_task (snd (connect res c)) = listener_task c
     \<and> (snd (connect res c) = c) = (reader c = None \<and> writer c = None)"
proof -
  have e: "connect res c = (Inl (DHDConnectionError FailedToConnect), c\<lparr>reader := None, writer := None\<rparr>)"
    using assms by (cases res) (simp_all add: connect_def)
  have i: "(c\<lparr>reader := None, writer := None\<rparr> = c) = (reader c = None \<and> writer c = None)"
    by (cases c) auto
  show ?thesis by (simp add: e i connected_def)
qed

theorem connect_failure_resets_witness:
  "connect OpenOSError init_client = (Inl (DHDConnectionError FailedToConnect), init_client)
   \<and> connect OpenTimeout lost_client
       = (Inl (DHDConnectionError FailedToConnect), lost_client\<lparr>reader := None, writer := None\<rparr>)
   \<and> \<not> connected (snd (connect OpenTimeout lost_client))
   \<and> listener_task (snd (connect OpenTimeout lost_client)) = Some (Task True)"
proof -
  have n: "\<not> connected init_client" by (simp add: connected_def init_client_def)
  have n2: "\<not> connected lost_client" by (simp add: connected_def lost_client_def)
  have r: "reader init_client = None \<and> writer init_client = None"
    by (simp add: init_client_def)
  have l: "listener_task lost_client = Some (Task True)" by (simp add: lost_client_def)
  have a: "connect OpenOSError init_client
      = (Inl (DHDConnectionError FailedToConnect), init_client)"
    using connect_failure_resets [OF n, of OpenOSError] r by (cases "connect OpenOSError init_client") simp
  have b: "connect OpenTimeout lost_client
       = (Inl (DHDConnectionError FailedToConnect), lost_client\<lparr>reader := None, writer := None\<rparr>)
     \<and> \<not> connected (snd (connect OpenTimeout lost_client))
     \<and> listener_task (snd (connect OpenTimeout lost_client)) = Some (Task True)"
    using connect_failure_resets [OF n2, of OpenTimeout] l by (simp add: connected_def)
  show ?thesis using a b by blast
qed

text \<open>
  C10 as stated fails on a client that is not connected because its writer is closing:
  the failed \<^verbatim>\<open>connect\<close> takes its reader and its writer away, so the client is not
  as if \<^verbatim>\<open>connect\<close> had never been called; the listener task that had ended and the
  pending request stay.
\<close>

theorem connect_failure_state_counterexample:
  "\<not> connected lost_client
   \<and> snd (connect OpenOSError lost_client) \<noteq> lost_client
   \<and> reader lost_client = Some StreamReader
   \<and> reader (snd (connect OpenOSError lost_client)) = None
   \<and> writer lost_client \<noteq> None
   \<and> writer (snd (connect OpenOSError lost_client)) = None
   \<and> listener_task (snd (connect OpenOSError lost_client)) = Some (Task True)
   \<and> pending (snd (connect OpenOSError lost_client)) = [1]"
proof -
  have n: "\<not> connected lost_client" by (simp add: connected_def lost_client_def)
  have e: "connect OpenOSError lost_client
      = (Inl (DHDConnectionError FailedToConnect), lost_client\<lparr>reader := None, writer := None\<rparr>)"
    using n by (simp add: connect_def)
  have r: "reader lost_client = Some StreamReader"
    by (simp add: lost_client_def one_request_def init_client_def)
  have "reader (lost_client\<lparr>reader := None, writer := None\<rparr>) \<noteq> reader lost_client"
    using r by simp
  then have d: "lost_client\<lparr>reader := None, writer := None\<rparr> \<noteq> lost_client"
    by (metis)
  show ?thesis
    using n d r by (simp add: e) (simp add: lost_client_def one_request_def init_client_def)
qed

end
